theory Spec2Isabelle
  imports Main
begin

section \<open>The host program of \<^verbatim>\<open>bindings/c/libjsonnet_test_file.c\<close>\<close>

text \<open>
  The file holds two functions: the native callback \<^verbatim>\<open>native_add\<close> and \<^verbatim>\<open>main\<close>.
  Everything they call (\<^verbatim>\<open>jsonnet_*\<close>, \<^verbatim>\<open>malloc\<close>, \<^verbatim>\<open>free\<close>, \<^verbatim>\<open>printf\<close>,
  \<^verbatim>\<open>fprintf\<close>) is declared in headers that are not part of the file. The calls are
  modelled as operations on explicit state; what the engine and the C library answer is
  a parameter of the model, so that every theorem holds for every engine.
\<close>

subsection \<open>Handles and the context record\<close>

type_synonym vm_t = nat    \<comment> \<open>\<^verbatim>\<open>struct JsonnetVm*\<close>\<close>
type_synonym val_t = nat   \<comment> \<open>\<^verbatim>\<open>struct JsonnetJsonValue*\<close>\<close>
type_synonym ptr = nat     \<comment> \<open>any other address: \<^verbatim>\<open>void*\<close>, \<^verbatim>\<open>char*\<close>\<close>

record native_ctx_t =
  vm :: vm_t

subsection \<open>The engine's value handles, as seen from the callback\<close>

text \<open>
  The C type \<^verbatim>\<open>double\<close> is the type variable \<open>'d\<close> of class \<open>plus\<close>: the callback only
  moves numbers and adds two of them, so its properties hold for every addition, the
  IEEE one included. Equality on \<open>'d\<close> is identity of the representation.
\<close>

text \<open>
  Modelled from the spec: \<^verbatim>\<open>struct JsonnetJsonValue\<close> is declared in the missing
  \<^verbatim>\<open>libjsonnet.h\<close>. The spec has value handles for individual pieces of run-time data,
  numbers and others; of a value that is not a number only this fact matters here.
\<close>

datatype 'd json = J_null | J_bool bool | J_string string | J_number 'd

text \<open>
  Modelled from the spec: the state of the engine that the callback can reach, which the
  source does not declare. It holds the values behind the value handles (handle \<open>h\<close> is
  the index \<open>h\<close> of \<open>store\<close>), and \<open>clobber\<close>, what a failed extraction leaves in its
  out parameter as a function of the previous content. The spec leaves the latter
  undefined, so it is arbitrary here.
\<close>

record 'd engine =
  store :: "'d json list"
  clobber :: "'d \<Rightarrow> 'd"

text \<open>
  The value behind a handle. A handle beyond the store points to no value; an extraction
  from it fails as one from a value that is not a number does.
\<close>

definition deref :: "'d engine \<Rightarrow> val_t \<Rightarrow> 'd json option" where
  "deref e h = (if h < length (store e) then Some (store e ! h) else None)"

text \<open>
  Modelled from the spec: \<^verbatim>\<open>jsonnet_json_extract_number\<close> is declared in
  \<^verbatim>\<open>libjsonnet.h\<close>, which is missing. The spec gives it as
  \<open>extract number(handle, value handle) -> number, status\<close>, and says that it can fail on a
  value of the wrong type. The result is the status and the new content of the out
  parameter, whose old content is \<open>out\<close>. The engine state is only read.
\<close>

definition jsonnet_json_extract_number ::
    "vm_t \<Rightarrow> val_t \<Rightarrow> 'd \<Rightarrow> 'd engine \<Rightarrow> int \<times> 'd" where
  "jsonnet_json_extract_number v h out e =
     (case deref e h of
        Some (J_number x) \<Rightarrow> (1, x)
      | _ \<Rightarrow> (0, clobber e out))"

text \<open>
  Modelled from the spec: \<^verbatim>\<open>jsonnet_json_make_number\<close> is declared in the missing
  \<^verbatim>\<open>libjsonnet.h\<close>. The spec gives it as \<open>make number(handle, number) -> value handle\<close>,
  allocating a new value handle through the engine's allocator. The new handle is the
  next free index.
\<close>

definition jsonnet_json_make_number ::
    "vm_t \<Rightarrow> 'd \<Rightarrow> 'd engine \<Rightarrow> val_t \<times> 'd engine" where
  "jsonnet_json_make_number v x e =
     (length (store e), e\<lparr>store := store e @ [J_number x]\<rparr>)"

subsection \<open>\<^verbatim>\<open>native_add\<close>\<close>

text \<open>
  \<open>ctx\<close> is the record \<^verbatim>\<open>nctx\<close> points to. \<open>argv\<close> is the array of argument handles;
  the function reads \<^verbatim>\<open>argv[0]\<close> and \<^verbatim>\<open>argv[1]\<close>, which C leaves undefined on a
  shorter array: the model returns \<open>None\<close> there. The locals \<^verbatim>\<open>a\<close> and \<^verbatim>\<open>b\<close> are
  declared without an initialiser: \<open>a0\<close> and \<open>b0\<close> are whatever their storage holds on
  entry. The status that each extraction returns is dropped, as in the source. The result
  is the returned handle, the value stored through \<^verbatim>\<open>success\<close>, and the engine state.
\<close>

definition native_add ::
    "native_ctx_t \<Rightarrow> val_t list \<Rightarrow> 'd \<Rightarrow> 'd \<Rightarrow> ('d::plus) engine
       \<Rightarrow> (val_t \<times> int \<times> 'd engine) option" where
  "native_add ctx argv a0 b0 e =
     (if length argv < 2 then None
      else
        let a = snd (jsonnet_json_extract_number (vm ctx) (argv ! 0) a0 e);
            b = snd (jsonnet_json_extract_number (vm ctx) (argv ! 1) b0 e);
            success = 1;
            (r, e') = jsonnet_json_make_number (vm ctx) (a + b) e
        in Some (r, success, e'))"

subsection \<open>The process and its calls\<close>

text \<open>
  A function pointer handed to the engine; the program has one.
\<close>

datatype native_fn = Native_add

text \<open>
  Every call that \<^verbatim>\<open>main\<close> makes, with its arguments and, for a call that returns
  something, the result: \<open>Jsonnet_make v\<close> returned \<open>v\<close>, \<open>Malloc p\<close> returned \<open>p\<close>,
  \<open>Jsonnet_evaluate_file v f buf err\<close> returned the buffer \<open>buf\<close> and stored \<open>err\<close>
  through its last argument. The two printing calls carry the text written.
\<close>

datatype call =
    Fprintf_stderr string
  | Printf string
  | Jsonnet_make vm_t
  | Malloc ptr
  | Jsonnet_native_callback vm_t string native_fn ptr "string option list"
  | Jsonnet_evaluate_file vm_t string ptr int
  | Jsonnet_realloc vm_t ptr nat
  | Free ptr
  | Jsonnet_destroy vm_t

text \<open>
  The state of the process: the two output streams, the calls made so far in their order,
  and the blocks obtained from \<^verbatim>\<open>malloc\<close> that hold a context record.
\<close>

record world =
  stdout :: string
  stderr :: string
  calls :: "call list"
  heap :: "ptr \<rightharpoonup> native_ctx_t"

definition start :: world where
  "start = \<lparr>stdout = [], stderr = [], calls = [], heap = Map.empty\<rparr>"

text \<open>
  What the environment answers: the handle \<^verbatim>\<open>jsonnet_make\<close> returns, the address
  \<^verbatim>\<open>malloc\<close> returns, and for each file name the address of the output buffer, the C
  string in it and the error flag of \<^verbatim>\<open>jsonnet_evaluate_file\<close>.
  \<^verbatim>\<open>jsonnet_make\<close> is taken to succeed. In \<open>main\<close> below \<^verbatim>\<open>malloc\<close> is taken to
  hand out a block at the address it returns; the run in which it returns the null pointer
  is that of \<open>process\<close> further down.
\<close>

record env =
  make_result :: vm_t
  malloc_result :: ptr
  evaluate_result :: "string \<Rightarrow> ptr \<times> string \<times> int"

text \<open>
  Modelled from the spec: \<^verbatim>\<open>EXIT_SUCCESS\<close> comes from \<^verbatim>\<open>stdlib.h\<close>, which is
  missing; the spec gives exit code 0 for success.
\<close>

definition EXIT_SUCCESS :: int where
  "EXIT_SUCCESS = 0"

text \<open>
  Modelled from the spec: \<^verbatim>\<open>EXIT_FAILURE\<close> comes from \<^verbatim>\<open>stdlib.h\<close>, which is
  missing; the spec gives exit code 1 as the failure constant.
\<close>

definition EXIT_FAILURE :: int where
  "EXIT_FAILURE = 1"

text \<open>
  The C library calls of \<^verbatim>\<open>main\<close>. \<^verbatim>\<open>malloc\<close> hands out a block whose content is
  not yet defined; the assignment \<^verbatim>\<open>native_ctx->vm = vm\<close> is \<open>store_ctx\<close>.
\<close>

definition log :: "call \<Rightarrow> world \<Rightarrow> world" where
  "log c w = w\<lparr>calls := calls w @ [c]\<rparr>"

definition fprintf_stderr :: "string \<Rightarrow> world \<Rightarrow> world" where
  "fprintf_stderr s w = log (Fprintf_stderr s) (w\<lparr>stderr := stderr w @ s\<rparr>)"

definition printf :: "string \<Rightarrow> world \<Rightarrow> world" where
  "printf s w = log (Printf s) (w\<lparr>stdout := stdout w @ s\<rparr>)"

definition malloc :: "env \<Rightarrow> world \<Rightarrow> ptr \<times> world" where
  "malloc en w = (malloc_result en, log (Malloc (malloc_result en)) w)"

definition store_ctx :: "ptr \<Rightarrow> native_ctx_t \<Rightarrow> world \<Rightarrow> world" where
  "store_ctx p c w = w\<lparr>heap := (heap w)(p \<mapsto> c)\<rparr>"

definition free :: "ptr \<Rightarrow> world \<Rightarrow> world" where
  "free p w = log (Free p) (w\<lparr>heap := (heap w)(p := None)\<rparr>)"

text \<open>
  The five engine calls of \<^verbatim>\<open>main\<close> are declared in the missing \<^verbatim>\<open>libjsonnet.h\<close>.
  Each one is recorded with its arguments; what happens inside the engine is not modelled.
\<close>

text \<open>
  Modelled from the spec: \<^verbatim>\<open>jsonnet_make\<close> is missing; the spec gives it as
  \<open>create machine handle() -> handle\<close>.
\<close>

definition jsonnet_make :: "env \<Rightarrow> world \<Rightarrow> vm_t \<times> world" where
  "jsonnet_make en w = (make_result en, log (Jsonnet_make (make_result en)) w)"

text \<open>
  Modelled from the spec: \<^verbatim>\<open>jsonnet_native_callback\<close> is missing; the spec gives it as
  \<open>register native callback(handle, name, callback, context, parameter names)\<close>, the
  parameter names being an ordered list of strings terminated by a null marker.
\<close>

definition jsonnet_native_callback ::
    "vm_t \<Rightarrow> string \<Rightarrow> native_fn \<Rightarrow> ptr \<Rightarrow> string option list \<Rightarrow> world \<Rightarrow> world" where
  "jsonnet_native_callback v name cb ctx params w =
     log (Jsonnet_native_callback v name cb ctx params) w"

text \<open>
  Modelled from the spec: \<^verbatim>\<open>jsonnet_evaluate_file\<close> is missing; the spec gives it as
  \<open>evaluate file(handle, path) -> (output, error flag)\<close>. The output is the buffer's
  address with the string in it.
\<close>

definition jsonnet_evaluate_file ::
    "env \<Rightarrow> vm_t \<Rightarrow> string \<Rightarrow> world \<Rightarrow> ((ptr \<times> string) \<times> int) \<times> world" where
  "jsonnet_evaluate_file en v filename w =
     (case evaluate_result en filename of
        (buf, text, err) \<Rightarrow>
          (((buf, text), err), log (Jsonnet_evaluate_file v filename buf err) w))"

text \<open>
  Modelled from the spec: \<^verbatim>\<open>jsonnet_realloc\<close> is missing; the spec gives it as
  \<open>release buffer(handle, buffer, size)\<close>.
\<close>

definition jsonnet_realloc :: "vm_t \<Rightarrow> ptr \<Rightarrow> nat \<Rightarrow> world \<Rightarrow> world" where
  "jsonnet_realloc v buf sz w = log (Jsonnet_realloc v buf sz) w"

text \<open>
  Modelled from the spec: \<^verbatim>\<open>jsonnet_destroy\<close> is missing; the spec gives it as
  \<open>destroy machine handle(handle)\<close>.
\<close>

definition jsonnet_destroy :: "vm_t \<Rightarrow> world \<Rightarrow> world" where
  "jsonnet_destroy v w = log (Jsonnet_destroy v) w"

subsection \<open>\<^verbatim>\<open>main\<close>\<close>

text \<open>
  \<open>argv\<close> is the argument vector with the program name first, so \<^verbatim>\<open>argc\<close> is its
  length. \<^verbatim>\<open>output\<close> is an address together with the C string at that address. The
  array \<^verbatim>\<open>params\<close> ends with a null pointer, here \<open>None\<close>. The result is the exit code
  and the final state of the process.
\<close>

definition usage :: string where
  "usage = ''libjsonnet_test_file <file>'' @ [CHR 0x0A]"

definition main :: "env \<Rightarrow> string list \<Rightarrow> int \<times> world" where
  "main en argv =
     (let argc = int (length argv) in
      if argc \<noteq> 2 then (EXIT_FAILURE, fprintf_stderr usage start)
      else
        let (v, w1) = jsonnet_make en start;
            (native_ctx, w2) = malloc en w1;
            w3 = store_ctx native_ctx \<lparr>vm = v\<rparr> w2;
            params = [Some ''a'', Some ''b'', None];
            w4 = jsonnet_native_callback v ''nativeAdd'' Native_add native_ctx params w3;
            ((output, error), w5) = jsonnet_evaluate_file en v (argv ! 1) w4
        in
          if error \<noteq> 0 then
            let w6 = fprintf_stderr (snd output) w5;
                w7 = jsonnet_realloc v (fst output) 0 w6;
                w8 = jsonnet_destroy v w7
            in (EXIT_FAILURE, w8)
          else
            let w6 = printf (snd output) w5;
                w7 = jsonnet_realloc v (fst output) 0 w6;
                w8 = free native_ctx w7;
                w9 = jsonnet_destroy v w8
            in (EXIT_SUCCESS, w9))"

subsection \<open>A failed allocation\<close>

text \<open>
  \<open>main\<close> above takes what \<^verbatim>\<open>malloc\<close> returns to be the address of a block.
  \<^verbatim>\<open>malloc\<close> can return the null pointer instead, and the source does not test for it:
  the assignment \<^verbatim>\<open>native_ctx->vm = vm\<close> of line 35 then stores through the null
  pointer. C gives the program no meaning from there on; the run stops at the store, with
  no exit code of \<^verbatim>\<open>main\<close>. \<open>process\<close> is the program with this run included: up to
  the store it makes the calls of \<open>main\<close>, and with a block from \<^verbatim>\<open>malloc\<close> it is
  \<open>main\<close>.
\<close>

definition NULL :: ptr where
  "NULL = 0"

datatype ending = Returned int | Stopped

definition process :: "env \<Rightarrow> string list \<Rightarrow> ending \<times> world" where
  "process en argv =
     (let argc = int (length argv) in
      if argc \<noteq> 2 then (Returned (fst (main en argv)), snd (main en argv))
      else
        let (v, w1) = jsonnet_make en start;
            (native_ctx, w2) = malloc en w1
        in
          if native_ctx = NULL then (Stopped, w2)
          else (Returned (fst (main en argv)), snd (main en argv)))"

subsection \<open>Reading a call sequence\<close>

text \<open>
  \<open>precedes x y cs\<close>: \<open>x\<close> occurs in \<open>cs\<close> and \<open>y\<close> occurs after the first \<open>x\<close>.
\<close>

fun precedes :: "call \<Rightarrow> call \<Rightarrow> call list \<Rightarrow> bool" where
  "precedes x y [] = False"
| "precedes x y (c # cs) = (if c = x then y \<in> set cs else precedes x y cs)"

fun is_make :: "call \<Rightarrow> bool" where
  "is_make (Jsonnet_make v) = True"
| "is_make c = False"

fun is_destroy :: "call \<Rightarrow> bool" where
  "is_destroy (Jsonnet_destroy v) = True"
| "is_destroy c = False"

fun is_free :: "call \<Rightarrow> bool" where
  "is_free (Free p) = True"
| "is_free c = False"

fun is_evaluate :: "call \<Rightarrow> bool" where
  "is_evaluate (Jsonnet_evaluate_file v f b e) = True"
| "is_evaluate c = False"

fun is_realloc :: "call \<Rightarrow> bool" where
  "is_realloc (Jsonnet_realloc v b n) = True"
| "is_realloc c = False"

fun is_engine :: "call \<Rightarrow> bool" where
  "is_engine (Fprintf_stderr s) = False"
| "is_engine (Printf s) = False"
| "is_engine (Malloc p) = False"
| "is_engine (Free p) = False"
| "is_engine c = True"

text \<open>
  A test double of the engine's allocator, run over a call sequence: \<open>live\<close> holds the
  buffers handed out and not yet returned. A buffer is handed out by
  \<^verbatim>\<open>jsonnet_evaluate_file\<close> and returned by \<^verbatim>\<open>jsonnet_realloc\<close> with size 0. Returning
  a buffer that is not live is a double free or a free of a foreign address: \<open>None\<close>.
\<close>

fun allocator :: "call list \<Rightarrow> ptr list \<Rightarrow> ptr list option" where
  "allocator [] live = Some live"
| "allocator (Jsonnet_evaluate_file v f buf err # cs) live = allocator cs (buf # live)"
| "allocator (Jsonnet_realloc v buf sz # cs) live =
     (if sz \<noteq> 0 then allocator cs live
      else if buf \<in> set live then allocator cs (remove1 buf live)
      else None)"
| "allocator (c # cs) live = allocator cs live"


text \<open>
  Whether a handle, once dereferenced, gives a number.
\<close>

fun is_number :: "'d json option \<Rightarrow> bool" where
  "is_number (Some (J_number x)) = True"
| "is_number v = False"

subsection \<open>Test doubles\<close>

text \<open>
  An engine that gives the same answer for every file name, and an environment around it
  with fixed addresses.
\<close>

definition answering :: "ptr \<times> string \<times> int \<Rightarrow> string \<Rightarrow> ptr \<times> string \<times> int" where
  "answering r f = r"

definition test_env :: "string \<Rightarrow> int \<Rightarrow> env" where
  "test_env text err =
     \<lparr>make_result = 1, malloc_result = 2, evaluate_result = answering (3, text, err)\<rparr>"

definition test_argv :: "string list" where
  "test_argv = [''libjsonnet_test_file'', ''test.jsonnet'']"

definition keep :: "int \<Rightarrow> int" where
  "keep x = x"

definition test_engine :: "int engine" where
  "test_engine = \<lparr>store = [J_number 2, J_number 3, J_string ''three''], clobber = keep\<rparr>"

text \<open>
  An environment whose \<^verbatim>\<open>malloc\<close> returns the null pointer, and an engine state with
  the same number behind two handles.
\<close>

definition null_env :: env where
  "null_env =
     \<lparr>make_result = 1, malloc_result = NULL, evaluate_result = answering (3, ''5'', 0)\<rparr>"

definition twin_engine :: "int engine" where
  "twin_engine = \<lparr>store = [J_number 2, J_number 2, J_number 3], clobber = keep\<rparr>"

section \<open>Properties of \<^verbatim>\<open>native_add\<close>\<close>

lemma native_add_value:
  assumes "2 \<le> length argv"
  shows "native_add ctx argv ua ub e =
     Some (length (store e), 1,
           e\<lparr>store := store e @
              [J_number (snd (jsonnet_json_extract_number (vm ctx) (argv ! 0) ua e) +
                         snd (jsonnet_json_extract_number (vm ctx) (argv ! 1) ub e))]\<rparr>)"
  using assms by (simp add: native_add_def Let_def jsonnet_json_make_number_def)

lemma extract_number_hit:
  "deref e h = Some (J_number x) \<Longrightarrow> jsonnet_json_extract_number v h out e = (1, x)"
  by (simp add: jsonnet_json_extract_number_def)

lemma extract_number_miss:
  "\<not> is_number (deref e h) \<Longrightarrow> jsonnet_json_extract_number v h out e = (0, clobber e out)"
  by (cases "deref e h" rule: is_number.cases) (simp_all add: jsonnet_json_extract_number_def)

lemma deref_append_old: "deref e h \<noteq> None \<Longrightarrow> deref (e\<lparr>store := store e @ xs\<rparr>) h = deref e h"
  by (simp add: deref_def nth_append split: if_splits)

lemma deref_append_new: "deref (e\<lparr>store := store e @ [x]\<rparr>) (length (store e)) = Some x"
  by (simp add: deref_def)

text \<open>
  Claim C1. When the callback is called with two argument handles that carry the numbers
  \<open>a\<close> and \<open>b\<close>, it returns a handle that did not exist before the call, stores 1 through
  \<^verbatim>\<open>success\<close>, and extracting a number from the returned handle succeeds and gives
  \<open>a + b\<close>. This holds for any content \<open>ua\<close>, \<open>ub\<close> of the uninitialised locals.
\<close>

theorem native_add_numeric:
  assumes "length argv = 2"
    and "deref e (argv ! 0) = Some (J_number a)"
    and "deref e (argv ! 1) = Some (J_number b)"
  shows "native_add ctx argv ua ub e =
           Some (length (store e), 1, e\<lparr>store := store e @ [J_number (a + b)]\<rparr>)
       \<and> deref e (length (store e)) = None
       \<and> jsonnet_json_extract_number (vm ctx) (length (store e)) out
            (e\<lparr>store := store e @ [J_number (a + b)]\<rparr>) = (1, a + b)"
proof -
  from assms(1) have len: "2 \<le> length argv" by simp
  have "native_add ctx argv ua ub e =
           Some (length (store e), 1, e\<lparr>store := store e @ [J_number (a + b)]\<rparr>)"
    using assms(2,3) by (simp add: native_add_value [OF len] extract_number_hit)
  moreover have "deref e (length (store e)) = None"
    by (simp add: deref_def)
  moreover have "jsonnet_json_extract_number (vm ctx) (length (store e)) out
            (e\<lparr>store := store e @ [J_number (a + b)]\<rparr>) = (1, a + b)"
    by (rule extract_number_hit) (rule deref_append_new)
  ultimately show ?thesis by simp
qed

theorem native_add_numeric_witness:
  "length [0, 1 :: nat] = 2
   \<and> deref test_engine ([0, 1] ! 0) = Some (J_number 2)
   \<and> deref test_engine ([0, 1] ! 1) = Some (J_number 3)
   \<and> native_add \<lparr>vm = 1\<rparr> [0, 1] 70 80 test_engine =
       Some (3, 1, \<lparr>store = [J_number 2, J_number 3, J_string ''three'', J_number 5], clobber = keep\<rparr>)
   \<and> jsonnet_json_extract_number 1 3 0
       \<lparr>store = [J_number 2, J_number 3, J_string ''three'', J_number 5], clobber = keep\<rparr> = (1, 5)"
proof -
  have h1: "length [0, 1 :: nat] = 2" by simp
  have h2: "deref test_engine ([0, 1] ! 0) = Some (J_number 2)"
    by (simp add: deref_def test_engine_def)
  have h3: "deref test_engine ([0, 1] ! 1) = Some (J_number 3)"
    by (simp add: deref_def test_engine_def)
  from native_add_numeric [OF h1 h2 h3, where ctx = "\<lparr>vm = 1\<rparr>" and out = 0 and ua = 70 and ub = 80] h1 h2 h3
  show ?thesis by (simp add: test_engine_def eval_nat_numeral)
qed

text \<open>
  Claim C6. The callback never looks at the status of an extraction. Whatever the two
  handles point to, it stores 1 through \<^verbatim>\<open>success\<close> and returns a new number, the sum of
  what the two out parameters hold after the extractions. When an argument is not a
  number, its extraction reports status 0, and what enters the addition is what the engine
  left in the out parameter, a function of the uninitialised local.
\<close>

theorem native_add_unchecked:
  assumes "2 \<le> length argv"
  shows "native_add ctx argv ua ub e =
           Some (length (store e), 1,
                 e\<lparr>store := store e @
                    [J_number (snd (jsonnet_json_extract_number (vm ctx) (argv ! 0) ua e) +
                               snd (jsonnet_json_extract_number (vm ctx) (argv ! 1) ub e))]\<rparr>)
       \<and> (\<not> is_number (deref e (argv ! 0)) \<longrightarrow>
            jsonnet_json_extract_number (vm ctx) (argv ! 0) ua e = (0, clobber e ua))
       \<and> (\<not> is_number (deref e (argv ! 1)) \<longrightarrow>
            jsonnet_json_extract_number (vm ctx) (argv ! 1) ub e = (0, clobber e ub))"
  using native_add_value [OF assms] by (simp add: extract_number_miss)

theorem native_add_unchecked_witness:
  "2 \<le> length [0, 2 :: nat]
   \<and> \<not> is_number (deref test_engine ([0, 2] ! 1))
   \<and> jsonnet_json_extract_number 1 ([0, 2] ! 1) 80 test_engine = (0, 80)
   \<and> native_add \<lparr>vm = 1\<rparr> [0, 2] 70 80 test_engine =
       Some (3, 1, \<lparr>store = [J_number 2, J_number 3, J_string ''three'', J_number 82], clobber = keep\<rparr>)"
proof -
  have h1: "2 \<le> length [0, 2 :: nat]" by simp
  have h2: "\<not> is_number (deref test_engine ([0, 2] ! 1))"
    by (simp add: deref_def test_engine_def)
  have h3: "jsonnet_json_extract_number 1 ([0, 2] ! 0) 70 test_engine = (1, 2)"
    by (simp add: jsonnet_json_extract_number_def deref_def test_engine_def)
  from native_add_unchecked [OF h1, where ctx = "\<lparr>vm = 1\<rparr>" and ua = 70 and ub = 80 and e = test_engine] h1 h2 h3
  show ?thesis by (simp add: test_engine_def keep_def)
qed

lemma extract_number_by_value:
  "deref e h = deref e h' \<Longrightarrow>
   jsonnet_json_extract_number v h out e = jsonnet_json_extract_number v h' out e"
  by (simp add: jsonnet_json_extract_number_def)

text \<open>
  Claim C9. A call of the callback returns, and the engine state after it is the state
  before it with exactly one value added: the returned handle is the new one, and the
  value behind it is the number that is the sum of the two extracted numbers; every handle
  that was valid before the call (the two argument handles among them) still gives the
  same value, and nothing else of the engine state changes. No reference to an argument
  handle is kept: the handle, the flag and the state that the call gives back depend on
  the values behind the two argument handles only, so that a call with any other two
  handles that have the same values behind them gives back the same three.
\<close>

theorem native_add_frame:
  assumes "2 \<le> length argv"
  shows "case native_add ctx argv ua ub e of
           None \<Rightarrow> False
         | Some (r, s, e') \<Rightarrow>
             r = length (store e)
           \<and> length (store e') = Suc (length (store e))
           \<and> take (length (store e)) (store e') = store e
           \<and> store e' = store e @
               [J_number (snd (jsonnet_json_extract_number (vm ctx) (argv ! 0) ua e) +
                          snd (jsonnet_json_extract_number (vm ctx) (argv ! 1) ub e))]
           \<and> is_number (deref e' r)
           \<and> clobber e' = clobber e
           \<and> (\<forall>h. deref e h \<noteq> None \<longrightarrow> deref e' h = deref e h)
           \<and> (\<forall>argv'. 2 \<le> length argv'
                  \<and> deref e (argv' ! 0) = deref e (argv ! 0)
                  \<and> deref e (argv' ! 1) = deref e (argv ! 1)
                \<longrightarrow> native_add ctx argv' ua ub e = Some (r, s, e'))"
proof -
  have same: "native_add ctx argv' ua ub e = native_add ctx argv ua ub e"
    if "2 \<le> length argv'"
      and "deref e (argv' ! 0) = deref e (argv ! 0)"
      and "deref e (argv' ! 1) = deref e (argv ! 1)" for argv'
    by (simp only: native_add_value [OF assms] native_add_value [OF that(1)]
          extract_number_by_value [OF that(2)] extract_number_by_value [OF that(3)])
  show ?thesis
    using same
    by (simp add: native_add_value [OF assms] deref_append_old deref_append_new)
qed

theorem native_add_frame_witness:
  "2 \<le> length [0, 2 :: nat]
   \<and> 2 \<le> length [1, 2 :: nat]
   \<and> deref twin_engine ([1, 2] ! 0) = deref twin_engine ([0, 2] ! 0)
   \<and> deref twin_engine ([1, 2] ! 1) = deref twin_engine ([0, 2] ! 1)
   \<and> native_add \<lparr>vm = 1\<rparr> [0, 2] 70 80 twin_engine =
       Some (3, 1, \<lparr>store = [J_number 2, J_number 2, J_number 3, J_number 5], clobber = keep\<rparr>)
   \<and> native_add \<lparr>vm = 1\<rparr> [1, 2] 70 80 twin_engine =
       Some (3, 1, \<lparr>store = [J_number 2, J_number 2, J_number 3, J_number 5], clobber = keep\<rparr>)
   \<and> deref \<lparr>store = [J_number 2, J_number 2, J_number 3, J_number 5], clobber = keep\<rparr> 0 =
       deref twin_engine 0
   \<and> deref \<lparr>store = [J_number 2, J_number 2, J_number 3, J_number 5], clobber = keep\<rparr> 2 =
       deref twin_engine 2"
proof -
  have h1: "2 \<le> length [0, 2 :: nat]" by simp
  have h2: "2 \<le> length [1, 2 :: nat]" by simp
  have d0: "deref twin_engine ([1, 2] ! 0) = deref twin_engine ([0, 2] ! 0)"
    and d1: "deref twin_engine ([1, 2] ! 1) = deref twin_engine ([0, 2] ! 1)"
    by (simp_all add: deref_def twin_engine_def)
  have x0: "jsonnet_json_extract_number 1 ([0, 2] ! 0) 70 twin_engine = (1, 2)"
    and x1: "jsonnet_json_extract_number 1 ([0, 2] ! 1) 80 twin_engine = (1, 3)"
    by (simp_all add: jsonnet_json_extract_number_def deref_def twin_engine_def)
  have v0: "deref twin_engine 0 \<noteq> None" and v2: "deref twin_engine 2 \<noteq> None"
    by (simp_all add: deref_def twin_engine_def)
  note t = native_add_frame [OF h1, where ctx = "\<lparr>vm = 1\<rparr>" and ua = 70 and ub = 80
      and e = twin_engine]
  obtain r s e' where run: "native_add \<lparr>vm = 1\<rparr> [0, 2] 70 80 twin_engine = Some (r, s, e')"
    using t by (auto split: option.splits)
  from t run have r: "r = length (store twin_engine)"
    and st: "store e' = store twin_engine @
               [J_number (snd (jsonnet_json_extract_number (vm \<lparr>vm = 1\<rparr>) ([0, 2] ! 0) 70 twin_engine) +
                          snd (jsonnet_json_extract_number (vm \<lparr>vm = 1\<rparr>) ([0, 2] ! 1) 80 twin_engine))]"
    and cl: "clobber e' = clobber twin_engine"
    and old: "\<And>h. deref twin_engine h \<noteq> None \<Longrightarrow> deref e' h = deref twin_engine h"
    and other: "native_add \<lparr>vm = 1\<rparr> [1, 2] 70 80 twin_engine = Some (r, s, e')"
    using h2 d0 d1 by simp_all
  have s: "s = 1"
    using run by (simp add: native_add_def Let_def split: prod.splits)
  have e': "e' = \<lparr>store = [J_number 2, J_number 2, J_number 3, J_number 5], clobber = keep\<rparr>"
    using st cl x0 x1 by (simp add: twin_engine_def)
  have r3: "r = 3" using r by (simp add: twin_engine_def)
  from old [OF v0] old [OF v2] run other h1 h2 d0 d1 show ?thesis
    by (simp add: s e' r3)
qed


section \<open>Properties of \<^verbatim>\<open>main\<close>\<close>

lemmas host_defs = main_def Let_def start_def log_def fprintf_stderr_def printf_def malloc_def
  store_ctx_def free_def jsonnet_make_def jsonnet_native_callback_def jsonnet_evaluate_file_def
  jsonnet_realloc_def jsonnet_destroy_def EXIT_SUCCESS_def EXIT_FAILURE_def

lemma main_usage:
  "length argv \<noteq> 2 \<Longrightarrow>
   main en argv =
     (1, \<lparr>stdout = [], stderr = usage, calls = [Fprintf_stderr usage], heap = Map.empty\<rparr>)"
  by (simp add: host_defs)

lemma main_failure:
  assumes "length argv = 2"
    and "evaluate_result en (argv ! 1) = (buf, text, err)"
    and "err \<noteq> 0"
  shows "main en argv =
    (1, \<lparr>stdout = [], stderr = text,
         calls = [Jsonnet_make (make_result en), Malloc (malloc_result en),
                  Jsonnet_native_callback (make_result en) ''nativeAdd'' Native_add
                    (malloc_result en) [Some ''a'', Some ''b'', None],
                  Jsonnet_evaluate_file (make_result en) (argv ! 1) buf err,
                  Fprintf_stderr text,
                  Jsonnet_realloc (make_result en) buf 0,
                  Jsonnet_destroy (make_result en)],
         heap = [malloc_result en \<mapsto> \<lparr>vm = make_result en\<rparr>]\<rparr>)"
  using assms by (simp add: host_defs)

lemma main_success:
  assumes "length argv = 2"
    and "evaluate_result en (argv ! 1) = (buf, text, 0)"
  shows "main en argv =
    (0, \<lparr>stdout = text, stderr = [],
         calls = [Jsonnet_make (make_result en), Malloc (malloc_result en),
                  Jsonnet_native_callback (make_result en) ''nativeAdd'' Native_add
                    (malloc_result en) [Some ''a'', Some ''b'', None],
                  Jsonnet_evaluate_file (make_result en) (argv ! 1) buf 0,
                  Printf text,
                  Jsonnet_realloc (make_result en) buf 0,
                  Free (malloc_result en),
                  Jsonnet_destroy (make_result en)],
         heap = Map.empty\<rparr>)"
  using assms by (simp add: host_defs)

lemma test_argv_length: "length test_argv = 2"
  by (simp add: test_argv_def)

lemma test_env_answer: "evaluate_result (test_env t e) (test_argv ! 1) = (3, t, e)"
  by (simp add: test_env_def answering_def)

lemma test_env_handles: "make_result (test_env t e) = 1" "malloc_result (test_env t e) = 2"
  by (simp_all add: test_env_def)

text \<open>
  Claim C2. A run with one file argument whose evaluation reports no error exits with
  \<^verbatim>\<open>EXIT_SUCCESS\<close>, which is 0; standard output holds the engine's output string and
  nothing else, standard error is empty; the output buffer is handed back with
  \<^verbatim>\<open>jsonnet_realloc\<close> and size 0, the context record is freed and no longer
  allocated, and the machine handle is destroyed.
\<close>

theorem main_success_path:
  assumes "length argv = 2"
    and "evaluate_result en (argv ! 1) = (buf, text, 0)"
  shows "fst (main en argv) = EXIT_SUCCESS
       \<and> fst (main en argv) = 0
       \<and> stdout (snd (main en argv)) = text
       \<and> stderr (snd (main en argv)) = []
       \<and> Jsonnet_realloc (make_result en) buf 0 \<in> set (calls (snd (main en argv)))
       \<and> Free (malloc_result en) \<in> set (calls (snd (main en argv)))
       \<and> heap (snd (main en argv)) (malloc_result en) = None
       \<and> Jsonnet_destroy (make_result en) \<in> set (calls (snd (main en argv)))"
  by (simp add: main_success [OF assms] EXIT_SUCCESS_def)

theorem main_success_path_witness:
  "length test_argv = 2
   \<and> evaluate_result (test_env ''5'' 0) (test_argv ! 1) = (3, ''5'', 0)
   \<and> fst (main (test_env ''5'' 0) test_argv) = 0
   \<and> stdout (snd (main (test_env ''5'' 0) test_argv)) = ''5''
   \<and> Jsonnet_realloc 1 3 0 \<in> set (calls (snd (main (test_env ''5'' 0) test_argv)))
   \<and> Free 2 \<in> set (calls (snd (main (test_env ''5'' 0) test_argv)))
   \<and> Jsonnet_destroy 1 \<in> set (calls (snd (main (test_env ''5'' 0) test_argv)))"
  using main_success_path [OF test_argv_length test_env_answer [of "''5''" 0]]
    test_argv_length test_env_answer [of "''5''" 0]
  by (simp add: test_env_handles)

text \<open>
  Claim C3. A run with one file argument whose evaluation reports an error exits with
  \<^verbatim>\<open>EXIT_FAILURE\<close>, which is not 0; standard error holds the engine's diagnostic as it
  is and standard output is empty; the output buffer is handed back, the machine handle is
  destroyed, and the file is evaluated once: there is no second attempt.
\<close>

theorem main_failure_path:
  assumes "length argv = 2"
    and "evaluate_result en (argv ! 1) = (buf, text, err)"
    and "err \<noteq> 0"
  shows "fst (main en argv) = EXIT_FAILURE
       \<and> fst (main en argv) \<noteq> 0
       \<and> stderr (snd (main en argv)) = text
       \<and> stdout (snd (main en argv)) = []
       \<and> Jsonnet_realloc (make_result en) buf 0 \<in> set (calls (snd (main en argv)))
       \<and> Jsonnet_destroy (make_result en) \<in> set (calls (snd (main en argv)))
       \<and> filter is_evaluate (calls (snd (main en argv))) =
           [Jsonnet_evaluate_file (make_result en) (argv ! 1) buf err]"
  by (simp add: main_failure [OF assms] EXIT_FAILURE_def)

theorem main_failure_path_witness:
  "length test_argv = 2
   \<and> evaluate_result (test_env ''RUNTIME ERROR'' 1) (test_argv ! 1) = (3, ''RUNTIME ERROR'', 1)
   \<and> (1::int) \<noteq> 0
   \<and> fst (main (test_env ''RUNTIME ERROR'' 1) test_argv) = 1
   \<and> stderr (snd (main (test_env ''RUNTIME ERROR'' 1) test_argv)) = ''RUNTIME ERROR''
   \<and> Jsonnet_realloc 1 3 0 \<in> set (calls (snd (main (test_env ''RUNTIME ERROR'' 1) test_argv)))
   \<and> Jsonnet_destroy 1 \<in> set (calls (snd (main (test_env ''RUNTIME ERROR'' 1) test_argv)))"
proof -
  have h: "(1::int) \<noteq> 0" by simp
  from main_failure_path [OF test_argv_length test_env_answer [of "''RUNTIME ERROR''" 1] h]
    test_argv_length test_env_answer [of "''RUNTIME ERROR''" 1]
  show ?thesis by (simp add: test_env_handles EXIT_FAILURE_def)
qed

text \<open>
  Claim C4. A run whose argument vector does not have exactly two entries (the program
  name and one file) writes the usage line to standard error and exits with
  \<^verbatim>\<open>EXIT_FAILURE\<close>. The write is its only call: no engine call is made, so no machine
  handle is created and no callback registered, and nothing is allocated.
\<close>

theorem main_usage_path:
  assumes "length argv \<noteq> 2"
  shows "fst (main en argv) = EXIT_FAILURE
       \<and> fst (main en argv) \<noteq> 0
       \<and> stderr (snd (main en argv)) = usage
       \<and> stdout (snd (main en argv)) = []
       \<and> calls (snd (main en argv)) = [Fprintf_stderr usage]
       \<and> filter is_engine (calls (snd (main en argv))) = []
       \<and> heap (snd (main en argv)) = Map.empty"
  by (simp add: main_usage [OF assms] EXIT_FAILURE_def)

theorem main_usage_path_witness:
  "length [''libjsonnet_test_file''] \<noteq> 2
   \<and> length [''libjsonnet_test_file'', ''a.jsonnet'', ''b.jsonnet''] \<noteq> 2
   \<and> fst (main (test_env ''5'' 0) [''libjsonnet_test_file'']) = 1
   \<and> stderr (snd (main (test_env ''5'' 0) [''libjsonnet_test_file''])) =
        ''libjsonnet_test_file <file>'' @ [CHR 0x0A]
   \<and> calls (snd (main (test_env ''5'' 0)
        [''libjsonnet_test_file'', ''a.jsonnet'', ''b.jsonnet''])) =
        [Fprintf_stderr (''libjsonnet_test_file <file>'' @ [CHR 0x0A])]"
proof -
  have h1: "length [''libjsonnet_test_file''] \<noteq> 2" by simp
  have h3: "length [''libjsonnet_test_file'', ''a.jsonnet'', ''b.jsonnet''] \<noteq> 2" by simp
  from main_usage_path [OF h1, of "test_env ''5'' 0"] main_usage_path [OF h3, of "test_env ''5'' 0"]
    h1 h3
  show ?thesis by (simp add: EXIT_FAILURE_def usage_def)
qed

text \<open>
  Claim C5 says that on the success path the machine handle is destroyed before the
  context record is freed. The source frees the record first: in a successful run both
  calls occur, and the destroy call does not precede the free.
\<close>

theorem destroy_before_free_counterexample:
  "fst (main (test_env ''5'' 0) test_argv) = EXIT_SUCCESS
   \<and> Jsonnet_destroy 1 \<in> set (calls (snd (main (test_env ''5'' 0) test_argv)))
   \<and> Free 2 \<in> set (calls (snd (main (test_env ''5'' 0) test_argv)))
   \<and> \<not> precedes (Jsonnet_destroy 1) (Free 2) (calls (snd (main (test_env ''5'' 0) test_argv)))"
  by (simp add: main_success [OF test_argv_length test_env_answer [of "''5''" 0]] test_env_handles EXIT_SUCCESS_def)

text \<open>
  Claim C5, amended. On the success path the context record is freed before the machine
  handle is destroyed, and not the other way round. This order is found on the success
  path only: on the failure path the record is not freed at all.
\<close>

theorem free_before_destroy:
  assumes "length argv = 2"
    and "evaluate_result en (argv ! 1) = (buf, text, err)"
  shows "(err = 0 \<longrightarrow>
            precedes (Free (malloc_result en)) (Jsonnet_destroy (make_result en))
              (calls (snd (main en argv)))
          \<and> \<not> precedes (Jsonnet_destroy (make_result en)) (Free (malloc_result en))
              (calls (snd (main en argv))))
       \<and> (err \<noteq> 0 \<longrightarrow>
            \<not> precedes (Free (malloc_result en)) (Jsonnet_destroy (make_result en))
              (calls (snd (main en argv)))
          \<and> filter is_free (calls (snd (main en argv))) = [])"
proof (cases "err = 0")
  case True
  with assms(2) have "evaluate_result en (argv ! 1) = (buf, text, 0)" by simp
  from main_success [OF assms(1) this] True show ?thesis by simp
next
  case False
  from main_failure [OF assms False] False show ?thesis by simp
qed

theorem free_before_destroy_witness:
  "length test_argv = 2
   \<and> evaluate_result (test_env ''5'' 0) (test_argv ! 1) = (3, ''5'', 0)
   \<and> evaluate_result (test_env ''RUNTIME ERROR'' 1) (test_argv ! 1) = (3, ''RUNTIME ERROR'', 1)
   \<and> precedes (Free 2) (Jsonnet_destroy 1) (calls (snd (main (test_env ''5'' 0) test_argv)))
   \<and> \<not> precedes (Free 2) (Jsonnet_destroy 1)
        (calls (snd (main (test_env ''RUNTIME ERROR'' 1) test_argv)))
   \<and> filter is_free (calls (snd (main (test_env ''RUNTIME ERROR'' 1) test_argv))) = []"
  using free_before_destroy [OF test_argv_length test_env_answer [of "''5''" 0]]
    free_before_destroy [OF test_argv_length test_env_answer [of "''RUNTIME ERROR''" 1]]
    test_argv_length test_env_answer [of "''5''" 0] test_env_answer [of "''RUNTIME ERROR''" 1]
  by (simp add: test_env_handles)

text \<open>
  Claim C7. On the success path and on the failure path alike, the host obtains one buffer
  from the engine, the output of the one evaluation, and hands it back by exactly one
  \<^verbatim>\<open>jsonnet_realloc\<close> call with size 0, made after the evaluation. Run over the calls
  of \<^verbatim>\<open>main\<close>, the allocator's test double ends with no live buffer and meets no
  release of a buffer that is not live: no leak and no double free.
\<close>

theorem output_released_once:
  assumes "length argv = 2"
    and "evaluate_result en (argv ! 1) = (buf, text, err)"
  shows "filter is_evaluate (calls (snd (main en argv))) =
           [Jsonnet_evaluate_file (make_result en) (argv ! 1) buf err]
       \<and> filter is_realloc (calls (snd (main en argv))) =
           [Jsonnet_realloc (make_result en) buf 0]
       \<and> count_list (calls (snd (main en argv))) (Jsonnet_realloc (make_result en) buf 0) = 1
       \<and> precedes (Jsonnet_evaluate_file (make_result en) (argv ! 1) buf err)
           (Jsonnet_realloc (make_result en) buf 0) (calls (snd (main en argv)))
       \<and> allocator (calls (snd (main en argv))) [] = Some []"
proof (cases "err = 0")
  case True
  with assms(2) have "evaluate_result en (argv ! 1) = (buf, text, 0)" by simp
  from main_success [OF assms(1) this] True show ?thesis by simp
next
  case False
  from main_failure [OF assms False] show ?thesis by simp
qed

theorem output_released_once_witness:
  "length test_argv = 2
   \<and> evaluate_result (test_env ''5'' 0) (test_argv ! 1) = (3, ''5'', 0)
   \<and> evaluate_result (test_env ''RUNTIME ERROR'' 1) (test_argv ! 1) = (3, ''RUNTIME ERROR'', 1)
   \<and> count_list (calls (snd (main (test_env ''5'' 0) test_argv))) (Jsonnet_realloc 1 3 0) = 1
   \<and> allocator (calls (snd (main (test_env ''5'' 0) test_argv))) [] = Some []
   \<and> count_list (calls (snd (main (test_env ''RUNTIME ERROR'' 1) test_argv)))
        (Jsonnet_realloc 1 3 0) = 1
   \<and> allocator (calls (snd (main (test_env ''RUNTIME ERROR'' 1) test_argv))) [] = Some []"
  using output_released_once [OF test_argv_length test_env_answer [of "''5''" 0]]
    output_released_once [OF test_argv_length test_env_answer [of "''RUNTIME ERROR''" 1]]
    test_argv_length test_env_answer [of "''5''" 0] test_env_answer [of "''RUNTIME ERROR''" 1]
  by (simp add: test_env_handles)

lemma process_null:
  assumes "length argv = 2" and "malloc_result en = NULL"
  shows "process en argv =
    (Stopped, \<lparr>stdout = [], stderr = [],
               calls = [Jsonnet_make (make_result en), Malloc NULL],
               heap = Map.empty\<rparr>)"
  using assms
  by (simp add: process_def Let_def jsonnet_make_def malloc_def log_def start_def)

lemma process_block:
  assumes "length argv = 2" and "malloc_result en \<noteq> NULL"
  shows "process en argv = (Returned (fst (main en argv)), snd (main en argv))"
  using assms
  by (simp add: process_def Let_def jsonnet_make_def malloc_def)

lemma null_env_handles: "make_result null_env = 1" "malloc_result null_env = NULL"
  by (simp_all add: null_env_def)

lemma test_env_block: "malloc_result (test_env t e) \<noteq> NULL"
  by (simp add: test_env_def NULL_def)

text \<open>
  Claim C8 says that every run that reaches engine interaction goes on to register,
  evaluate and release, and destroys the machine handle once. In a run in which
  \<^verbatim>\<open>malloc\<close> returns the null pointer the handle has been created, the run stops at the
  store through the null pointer, and the handle is never destroyed.
\<close>

theorem malloc_null_counterexample:
  "length test_argv = 2
   \<and> fst (process null_env test_argv) = Stopped
   \<and> calls (snd (process null_env test_argv)) = [Jsonnet_make 1, Malloc NULL]
   \<and> filter is_make (calls (snd (process null_env test_argv))) = [Jsonnet_make 1]
   \<and> filter is_destroy (calls (snd (process null_env test_argv))) = []"
  by (simp add: process_null [OF test_argv_length null_env_handles(2)] null_env_handles(1)
        test_argv_length)

text \<open>
  Claim C8, amended. A run that gets past the argument check and in which \<^verbatim>\<open>malloc\<close>
  returns a block for the context record returns from \<^verbatim>\<open>main\<close> and makes its calls in
  one fixed order: create the machine handle, allocate the context record, register
  \<^verbatim>\<open>native_add\<close> as \<^verbatim>\<open>nativeAdd\<close> with the parameter names \<open>a\<close>, \<open>b\<close> and the
  terminating null pointer, evaluate the file; then, by the error flag, either report on
  standard error, release the buffer and destroy the handle, or print on standard output,
  release the buffer, free the context record and destroy the handle. The engine calls are
  the same five on both paths; the handle is created once and destroyed once.
\<close>

theorem process_call_order:
  assumes "length argv = 2"
    and "malloc_result en \<noteq> NULL"
    and "evaluate_result en (argv ! 1) = (buf, text, err)"
  shows "fst (process en argv) = Returned (if err \<noteq> 0 then EXIT_FAILURE else EXIT_SUCCESS)
       \<and> calls (snd (process en argv)) =
           [Jsonnet_make (make_result en),
            Malloc (malloc_result en),
            Jsonnet_native_callback (make_result en) ''nativeAdd'' Native_add (malloc_result en)
              [Some ''a'', Some ''b'', None],
            Jsonnet_evaluate_file (make_result en) (argv ! 1) buf err]
           @ (if err \<noteq> 0
              then [Fprintf_stderr text,
                    Jsonnet_realloc (make_result en) buf 0,
                    Jsonnet_destroy (make_result en)]
              else [Printf text,
                    Jsonnet_realloc (make_result en) buf 0,
                    Free (malloc_result en),
                    Jsonnet_destroy (make_result en)])
       \<and> filter is_engine (calls (snd (process en argv))) =
           [Jsonnet_make (make_result en),
            Jsonnet_native_callback (make_result en) ''nativeAdd'' Native_add (malloc_result en)
              [Some ''a'', Some ''b'', None],
            Jsonnet_evaluate_file (make_result en) (argv ! 1) buf err,
            Jsonnet_realloc (make_result en) buf 0,
            Jsonnet_destroy (make_result en)]
       \<and> filter is_make (calls (snd (process en argv))) = [Jsonnet_make (make_result en)]
       \<and> filter is_destroy (calls (snd (process en argv))) = [Jsonnet_destroy (make_result en)]"
proof (cases "err = 0")
  case True
  with assms(3) have "evaluate_result en (argv ! 1) = (buf, text, 0)" by simp
  from main_success [OF assms(1) this] True show ?thesis
    by (simp add: process_block [OF assms(1,2)] EXIT_SUCCESS_def)
next
  case False
  from main_failure [OF assms(1,3) False] False show ?thesis
    by (simp add: process_block [OF assms(1,2)] EXIT_FAILURE_def)
qed

theorem process_call_order_witness:
  "length test_argv = 2
   \<and> malloc_result (test_env ''5'' 0) \<noteq> NULL
   \<and> malloc_result (test_env ''RUNTIME ERROR'' 1) \<noteq> NULL
   \<and> evaluate_result (test_env ''5'' 0) (test_argv ! 1) = (3, ''5'', 0)
   \<and> evaluate_result (test_env ''RUNTIME ERROR'' 1) (test_argv ! 1) = (3, ''RUNTIME ERROR'', 1)
   \<and> fst (process (test_env ''5'' 0) test_argv) = Returned 0
   \<and> calls (snd (process (test_env ''5'' 0) test_argv)) =
       [Jsonnet_make 1, Malloc 2,
        Jsonnet_native_callback 1 ''nativeAdd'' Native_add 2 [Some ''a'', Some ''b'', None],
        Jsonnet_evaluate_file 1 ''test.jsonnet'' 3 0,
        Printf ''5'', Jsonnet_realloc 1 3 0, Free 2, Jsonnet_destroy 1]
   \<and> fst (process (test_env ''RUNTIME ERROR'' 1) test_argv) = Returned 1
   \<and> calls (snd (process (test_env ''RUNTIME ERROR'' 1) test_argv)) =
       [Jsonnet_make 1, Malloc 2,
        Jsonnet_native_callback 1 ''nativeAdd'' Native_add 2 [Some ''a'', Some ''b'', None],
        Jsonnet_evaluate_file 1 ''test.jsonnet'' 3 1,
        Fprintf_stderr ''RUNTIME ERROR'', Jsonnet_realloc 1 3 0, Jsonnet_destroy 1]"
  using process_call_order [OF test_argv_length test_env_block test_env_answer [of "''5''" 0]]
    process_call_order [OF test_argv_length test_env_block
      test_env_answer [of "''RUNTIME ERROR''" 1]]
    test_argv_length test_env_block [of "''5''" 0] test_env_block [of "''RUNTIME ERROR''" 1]
    test_env_answer [of "''5''" 0] test_env_answer [of "''RUNTIME ERROR''" 1]
  by (simp add: test_env_handles test_argv_def EXIT_SUCCESS_def EXIT_FAILURE_def)

text \<open>
  Claim C10. On the failure path \<^verbatim>\<open>free\<close> is never called: the context record is still
  allocated when the process exits, while the output buffer has been handed back and the
  machine handle destroyed. The context record is freed exactly in the runs that take the
  success path.
\<close>

theorem context_leaked_on_failure:
  assumes "length argv = 2"
    and "evaluate_result en (argv ! 1) = (buf, text, err)"
  shows "(err \<noteq> 0 \<longrightarrow>
            filter is_free (calls (snd (main en argv))) = []
          \<and> heap (snd (main en argv)) (malloc_result en) = Some \<lparr>vm = make_result en\<rparr>
          \<and> filter is_realloc (calls (snd (main en argv))) =
              [Jsonnet_realloc (make_result en) buf 0]
          \<and> filter is_destroy (calls (snd (main en argv))) =
              [Jsonnet_destroy (make_result en)])
       \<and> (Free (malloc_result en) \<in> set (calls (snd (main en argv))) \<longleftrightarrow> err = 0)"
proof (cases "err = 0")
  case True
  with assms(2) have "evaluate_result en (argv ! 1) = (buf, text, 0)" by simp
  from main_success [OF assms(1) this] True show ?thesis by simp
next
  case False
  from main_failure [OF assms False] False show ?thesis by simp
qed

theorem context_leaked_on_failure_witness:
  "length test_argv = 2
   \<and> evaluate_result (test_env ''RUNTIME ERROR'' 1) (test_argv ! 1) = (3, ''RUNTIME ERROR'', 1)
   \<and> (1::int) \<noteq> 0
   \<and> filter is_free (calls (snd (main (test_env ''RUNTIME ERROR'' 1) test_argv))) = []
   \<and> heap (snd (main (test_env ''RUNTIME ERROR'' 1) test_argv)) 2 = Some \<lparr>vm = 1\<rparr>
   \<and> Free 2 \<notin> set (calls (snd (main (test_env ''RUNTIME ERROR'' 1) test_argv)))"
  using context_leaked_on_failure [OF test_argv_length test_env_answer [of "''RUNTIME ERROR''" 1]]
    test_argv_length test_env_answer [of "''RUNTIME ERROR''" 1]
  by (simp add: test_env_handles)

end
